theory Spec2Isabelle
  imports Main "HOL-Library.Word"
begin

section \<open>The values of Go that the events carry\<close>

subsection \<open>float64\<close>

text \<open>
  A \<open>float64\<close> is its 64 bits in the IEEE 754 binary64 format: bit 63 is the sign, bits
  62 to 52 the biased exponent, bits 51 to 0 the fraction. An \<open>int64\<close> is a 64-bit word
  read in two's complement (\<open>sint\<close>).
\<close>

type_synonym float64 = "64 word"

type_synonym int64 = "64 word"

definition sign_bit :: "float64 \<Rightarrow> bool" where
  "sign_bit x = (2 ^ 63 \<le> uint x)"

definition biased_exponent :: "float64 \<Rightarrow> int" where
  "biased_exponent x = (uint x div 2 ^ 52) mod 2048"

definition fraction :: "float64 \<Rightarrow> int" where
  "fraction x = uint x mod 2 ^ 52"

definition pack :: "bool \<Rightarrow> int \<Rightarrow> float64" where
  \<comment> \<open>the float64 with the given sign and the given 63 low bits\<close>
  "pack s bits = word_of_int ((if s then 2 ^ 63 else 0) + bits)"

definition is_nan :: "float64 \<Rightarrow> bool" where
  "is_nan x = (biased_exponent x = 2047 \<and> fraction x \<noteq> 0)"

definition is_inf :: "float64 \<Rightarrow> bool" where
  "is_inf x = (biased_exponent x = 2047 \<and> fraction x = 0)"

definition is_zero :: "float64 \<Rightarrow> bool" where
  "is_zero x = (biased_exponent x = 0 \<and> fraction x = 0)"

text \<open>
  A float64 that is neither a NaN nor an infinity has the value
  \<open>\<plusminus> significand x * 2 ^ exponent x\<close>; the subnormal numbers and the zeros are those
  with biased exponent 0.
\<close>

definition significand :: "float64 \<Rightarrow> int" where
  "significand x = (if biased_exponent x = 0 then fraction x else 2 ^ 52 + fraction x)"

definition exponent :: "float64 \<Rightarrow> int" where
  "exponent x = max (biased_exponent x) 1 - 1075"

definition signed_significand :: "float64 \<Rightarrow> int" where
  "signed_significand x = (if sign_bit x then - significand x else significand x)"

definition infinity :: "bool \<Rightarrow> float64" where
  "infinity s = pack s (2047 * 2 ^ 52)"

definition quiet_nan :: float64 where
  \<comment> \<open>Which NaN an operation delivers differs between processors. The operations below
      deliver this one; no statement of this theory depends on the choice.\<close>
  "quiet_nan = pack False (2047 * 2 ^ 52 + 2 ^ 51)"

definition pow2 :: "int \<Rightarrow> int" where
  \<comment> \<open>\<open>2 ^ k\<close> for \<open>0 \<le> k\<close>, and 1 for a negative \<open>k\<close>\<close>
  "pow2 k = 2 ^ nat k"

function bit_length :: "int \<Rightarrow> int" where
  "bit_length n = (if n \<le> 0 then 0 else 1 + bit_length (n div 2))"
  by pat_completeness auto
termination
  by (relation "measure nat") auto

declare bit_length.simps [simp del]

definition floor_log2 :: "int \<Rightarrow> int \<Rightarrow> int" where
  \<comment> \<open>the largest \<open>k\<close> with \<open>2 ^ k \<le> n / d\<close>, for positive \<open>n\<close> and \<open>d\<close>\<close>
  "floor_log2 n d =
     (let k = bit_length n - bit_length d
      in if d * pow2 k \<le> n * pow2 (- k) then k else k - 1)"

definition round_half_even :: "int \<Rightarrow> int \<Rightarrow> int" where
  \<comment> \<open>the integer nearest to \<open>n / d\<close>, the even one of two that are equally near\<close>
  "round_half_even n d =
     (let q = n div d; r = n mod d
      in if 2 * r < d \<or> (2 * r = d \<and> even q) then q else q + 1)"

definition round_float64 :: "bool \<Rightarrow> int \<Rightarrow> int \<Rightarrow> float64" where
  \<comment> \<open>Rounding to nearest, ties to even: the float64 of sign \<open>s\<close> nearest to the
      magnitude \<open>n / d\<close> (\<open>0 \<le> n\<close>, \<open>0 < d\<close>). \<open>q\<close> is the exponent of the last place
      kept, \<open>m\<close> the magnitude in units of \<open>2 ^ q\<close>; a magnitude that rounds beyond the
      largest finite number becomes an infinity.\<close>
  "round_float64 s n d =
     (if n = 0 then pack s 0
      else let q = max (floor_log2 n d - 52) (- 1074);
               m = round_half_even (n * pow2 (- q)) (d * pow2 q);
               bits = (q + 1074) * 2 ^ 52 + m
           in if 2047 * 2 ^ 52 \<le> bits then infinity s else pack s bits)"

definition round_scaled :: "bool \<Rightarrow> int \<Rightarrow> int \<Rightarrow> float64" where
  \<comment> \<open>the float64 of sign \<open>s\<close> nearest to the magnitude \<open>n * 2 ^ e\<close>\<close>
  "round_scaled s n e = round_float64 s (n * pow2 e) (pow2 (- e))"

definition fneg :: "float64 \<Rightarrow> float64" where
  "fneg x = pack (\<not> sign_bit x) (uint x mod 2 ^ 63)"

definition fadd :: "float64 \<Rightarrow> float64 \<Rightarrow> float64" where
  "fadd x y =
     (if is_nan x \<or> is_nan y then quiet_nan
      else if is_inf x then (if is_inf y \<and> sign_bit x \<noteq> sign_bit y then quiet_nan else x)
      else if is_inf y then y
      else let e = min (exponent x) (exponent y);
               v = signed_significand x * pow2 (exponent x - e)
                 + signed_significand y * pow2 (exponent y - e)
           in if v = 0 then pack (sign_bit x \<and> sign_bit y) 0
              else round_scaled (v < 0) \<bar>v\<bar> e)"

definition fsub :: "float64 \<Rightarrow> float64 \<Rightarrow> float64" where
  "fsub x y = fadd x (fneg y)"

definition fmul :: "float64 \<Rightarrow> float64 \<Rightarrow> float64" where
  "fmul x y =
     (let s = (sign_bit x \<noteq> sign_bit y)
      in if is_nan x \<or> is_nan y then quiet_nan
         else if is_inf x \<or> is_inf y
           then (if is_zero x \<or> is_zero y then quiet_nan else infinity s)
         else round_scaled s (significand x * significand y) (exponent x + exponent y))"

definition fdiv :: "float64 \<Rightarrow> float64 \<Rightarrow> float64" where
  "fdiv x y =
     (let s = (sign_bit x \<noteq> sign_bit y)
      in if is_nan x \<or> is_nan y then quiet_nan
         else if is_inf x then (if is_inf y then quiet_nan else infinity s)
         else if is_inf y then pack s 0
         else if is_zero y then (if is_zero x then quiet_nan else infinity s)
         else let e = exponent x - exponent y
              in round_float64 s (significand x * pow2 e) (significand y * pow2 (- e)))"

definition fma :: "float64 \<Rightarrow> float64 \<Rightarrow> float64 \<Rightarrow> float64" where
  \<comment> \<open>the fused multiply-add: \<open>x * y + z\<close> computed exactly and rounded once\<close>
  "fma x y z =
     (let s = (sign_bit x \<noteq> sign_bit y)
      in if is_nan x \<or> is_nan y \<or> is_nan z then quiet_nan
         else if is_inf x \<or> is_inf y
           then (if is_zero x \<or> is_zero y then quiet_nan
                 else if is_inf z \<and> sign_bit z \<noteq> s then quiet_nan
                 else infinity s)
         else if is_inf z then z
         else let ep = exponent x + exponent y;
                  e = min ep (exponent z);
                  p = (if s then - 1 else 1) * (significand x * significand y);
                  v = p * pow2 (ep - e) + signed_significand z * pow2 (exponent z - e)
              in if v = 0 then pack (s \<and> sign_bit z) 0
                 else round_scaled (v < 0) \<bar>v\<bar> e)"

definition float64_of_int64 :: "int64 \<Rightarrow> float64" where
  \<comment> \<open>the conversion \<open>float64(i)\<close>: integers beyond \<open>2 ^ 53\<close> are rounded\<close>
  "float64_of_int64 i = round_float64 (sint i < 0) \<bar>sint i\<bar> 1"

definition float64_eq :: "float64 \<Rightarrow> float64 \<Rightarrow> bool" where
  \<comment> \<open>Go's operator \<open>==\<close> on float64: a NaN equals nothing, the two zeros are equal\<close>
  "float64_eq x y = (\<not> is_nan x \<and> \<not> is_nan y \<and> (x = y \<or> (is_zero x \<and> is_zero y)))"

definition float64_2 :: float64 where
  \<comment> \<open>the constant \<open>float64(2)\<close>\<close>
  "float64_2 = pack False (1024 * 2 ^ 52)"

text \<open>
  The Go specification lets an implementation fuse \<open>x * y + z\<close> and \<open>x * y - z\<close> into one
  operation that rounds once, unless the product is converted explicitly (the compiler
  does so on arm64, for example, and not on a plain amd64): \<open>fused\<close> tells which of the
  two the target computes.
\<close>

definition mul_add :: "bool \<Rightarrow> float64 \<Rightarrow> float64 \<Rightarrow> float64 \<Rightarrow> float64" where
  "mul_add fused x y z = (if fused then fma x y z else fadd (fmul x y) z)"

definition mul_sub :: "bool \<Rightarrow> float64 \<Rightarrow> float64 \<Rightarrow> float64 \<Rightarrow> float64" where
  "mul_sub fused x y z = (if fused then fma x y (fneg z) else fsub (fmul x y) z)"

subsection \<open>time.Time, strings, maps and pointers\<close>

text \<open>
  \<open>time.Time\<close> is the struct of Go's standard library: two words for the instant and
  the pointer to the location (nil, or an address). A Go string is a sequence of bytes,
  a \<open>string\<close> here.
\<close>

record Time =
  wall :: "64 word"
  ext :: int64
  loc :: "nat option"

text \<open>
  A \<open>map[string]float64\<close> is a reference: nil, or the address of a map object. The map
  objects live in a store; a struct that is copied (as the receiver of a value method
  is) still refers to the same object, which a method body could read and write.
\<close>

type_synonym metrics = "string \<rightharpoonup> float64"

type_synonym store = "nat \<rightharpoonup> metrics"

text \<open>
  A method with a pointer receiver gets a pointer that is nil (\<open>None\<close>) or points to a
  struct whose value at the call is \<open>e\<close> (\<open>Some e\<close>). Assigning to a field through the
  nil pointer panics; otherwise the method returns, and the result is the value of the
  struct after the call.
\<close>

datatype error = NilPointerDereference

definition and_then :: "error + 'a \<Rightarrow> ('a option \<Rightarrow> error + 'b) \<Rightarrow> error + 'b" where
  \<comment> \<open>\<open>p.m1(..); p.m2(..)\<close>: the second call runs on the struct the first one left,
      and does not run when the first one panicked\<close>
  "and_then r m = (case r of Inl err \<Rightarrow> Inl err | Inr e \<Rightarrow> m (Some e))"

section \<open>The events\<close>

subsection \<open>Event\<close>

text \<open>
  Bar, Tick, Signal, Order and Fill embed \<open>Event\<close>: they are the extensions of the
  record, and the methods of \<open>Event\<close>, promoted to them by Go, are functions on every
  extension (\<open>'a Event_scheme\<close>), which see the two fields of \<open>Event\<close> and nothing else.
\<close>

record Event =
  timestamp :: Time
  symbol :: string

definition Event_Time :: "'a Event_scheme \<Rightarrow> Time" where
  "Event_Time e = timestamp e"

fun Event_SetTime :: "Time \<Rightarrow> 'a Event_scheme option \<Rightarrow> error + 'a Event_scheme" where
  "Event_SetTime t None = Inl NilPointerDereference"
| "Event_SetTime t (Some e) = Inr (e\<lparr>timestamp := t\<rparr>)"

definition Event_Symbol :: "'a Event_scheme \<Rightarrow> string" where
  "Event_Symbol e = symbol e"

fun Event_SetSymbol :: "string \<Rightarrow> 'a Event_scheme option \<Rightarrow> error + 'a Event_scheme" where
  "Event_SetSymbol s None = Inl NilPointerDereference"
| "Event_SetSymbol s (Some e) = Inr (e\<lparr>symbol := s\<rparr>)"

subsection \<open>DataEvent, Bar and Tick\<close>

record DataEvent =
  Metrics :: "nat option"

record Bar = Event +
  DataEvent :: DataEvent
  Open :: float64
  High :: float64
  Low :: float64
  Close :: float64
  AdjClose :: float64
  Volume :: int64

text \<open>
  The two \<open>LatestPrice\<close> methods take the store of the map objects and return it with
  their result, since their receiver holds a reference into it.
\<close>

definition Bar_LatestPrice :: "Bar \<Rightarrow> store \<Rightarrow> float64 \<times> store" where
  "Bar_LatestPrice b h = (Close b, h)"

record Tick = Event +
  DataEvent :: DataEvent
  Bid :: float64
  Ask :: float64

definition Tick_LatestPrice :: "Tick \<Rightarrow> store \<Rightarrow> float64 \<times> store" where
  "Tick_LatestPrice t h =
     (let latest = fdiv (fadd (Bid t) (Ask t)) float64_2 in (latest, h))"

subsection \<open>Signal\<close>

record Signal = Event +
  direction :: string

definition Signal_Direction :: "Signal \<Rightarrow> string" where
  "Signal_Direction s = Signal.direction s"

fun Signal_SetDirection :: "string \<Rightarrow> Signal option \<Rightarrow> error + Signal" where
  "Signal_SetDirection dir None = Inl NilPointerDereference"
| "Signal_SetDirection dir (Some s) = Inr (s\<lparr>Signal.direction := dir\<rparr>)"

subsection \<open>Order\<close>

record Order = Event +
  direction :: string
  qty :: int64
  OrderType :: string
  Limit :: float64

definition Order_Direction :: "Order \<Rightarrow> string" where
  "Order_Direction o' = Order.direction o'"

fun Order_SetDirection :: "string \<Rightarrow> Order option \<Rightarrow> error + Order" where
  "Order_SetDirection s None = Inl NilPointerDereference"
| "Order_SetDirection s (Some o') = Inr (o'\<lparr>Order.direction := s\<rparr>)"

definition Order_Qty :: "Order \<Rightarrow> int64" where
  "Order_Qty o' = Order.qty o'"

fun Order_SetQty :: "int64 \<Rightarrow> Order option \<Rightarrow> error + Order" where
  "Order_SetQty i None = Inl NilPointerDereference"
| "Order_SetQty i (Some o') = Inr (o'\<lparr>Order.qty := i\<rparr>)"

subsection \<open>Fill\<close>

record Fill = Event +
  Exchange :: string
  direction :: string
  qty :: int64
  price :: float64
  commission :: float64
  exchangeFee :: float64
  cost :: float64

definition Fill_Direction :: "Fill \<Rightarrow> string" where
  "Fill_Direction f = Fill.direction f"

fun Fill_SetDirection :: "string \<Rightarrow> Fill option \<Rightarrow> error + Fill" where
  "Fill_SetDirection s None = Inl NilPointerDereference"
| "Fill_SetDirection s (Some f) = Inr (f\<lparr>Fill.direction := s\<rparr>)"

definition Fill_Qty :: "Fill \<Rightarrow> int64" where
  "Fill_Qty f = Fill.qty f"

fun Fill_SetQty :: "int64 \<Rightarrow> Fill option \<Rightarrow> error + Fill" where
  "Fill_SetQty i None = Inl NilPointerDereference"
| "Fill_SetQty i (Some f) = Inr (f\<lparr>Fill.qty := i\<rparr>)"

definition Fill_Price :: "Fill \<Rightarrow> float64" where
  "Fill_Price f = price f"

definition Fill_Commission :: "Fill \<Rightarrow> float64" where
  "Fill_Commission f = commission f"

definition Fill_ExchangeFee :: "Fill \<Rightarrow> float64" where
  "Fill_ExchangeFee f = exchangeFee f"

definition Fill_Cost :: "Fill \<Rightarrow> float64" where
  "Fill_Cost f = cost f"

definition Fill_Value :: "Fill \<Rightarrow> float64" where
  "Fill_Value f = (let value = fmul (float64_of_int64 (Fill.qty f)) (price f) in value)"

definition Fill_NetValue :: "bool \<Rightarrow> Fill \<Rightarrow> float64" where
  \<comment> \<open>\<open>fused\<close>: whether the target fuses the product and the sum of one expression\<close>
  "Fill_NetValue fused f =
     (if Fill.direction f = ''BOT''
      then let netValue = mul_add fused (float64_of_int64 (Fill.qty f)) (price f) (cost f)
           in netValue
      else let netValue = mul_sub fused (float64_of_int64 (Fill.qty f)) (price f) (cost f)
           in netValue)"

section \<open>Events used as examples\<close>

text \<open>
  The fields that an example does not mention are the zero values. The numbers are
  written as their bits: \<open>0x3FF0000000000000\<close> is 1.0, \<open>0x4004000000000000\<close> 2.5,
  \<open>0x4024000000000000\<close> 10.0, \<open>0x4049000000000000\<close> 50.0, \<open>0x4059000000000000\<close> 100.0,
  \<open>0x4059200000000000\<close> 100.5, \<open>0x4059600000000000\<close> 101.5 and
  \<open>0x3FD5555555555555\<close> the float64 nearest to one third.
\<close>

definition zero_Time :: Time where
  "zero_Time = \<lparr>wall = 0, ext = 0, loc = None\<rparr>"

definition noon :: Time where
  "noon = \<lparr>wall = 0xC1A2B3C4D5E6F708, ext = 43200, loc = Some 1\<rparr>"

definition fill_unknown :: Fill where
  "fill_unknown =
     \<lparr>timestamp = zero_Time, symbol = '''', Exchange = '''', direction = ''unknown'',
      qty = 5, price = 0x4024000000000000, commission = 0, exchangeFee = 0,
      cost = 0x3FF0000000000000\<rparr>"

definition fill_bot :: Fill where
  "fill_bot =
     \<lparr>timestamp = zero_Time, symbol = '''', Exchange = '''', direction = ''BOT'',
      qty = 10, price = 0x4049000000000000, commission = 0, exchangeFee = 0,
      cost = 0x4004000000000000\<rparr>"

definition fill_bot_fees :: Fill where
  \<comment> \<open>\<open>fill_bot\<close> with a commission of 1.0 and an exchange fee of 2.5, whose sum is not
      the cost\<close>
  "fill_bot_fees =
     fill_bot\<lparr>symbol := ''ABC'', Exchange := ''XNYS'', commission := 0x3FF0000000000000,
       exchangeFee := 0x4004000000000000\<rparr>"

definition fill_sld :: Fill where
  "fill_sld = fill_bot\<lparr>Fill.direction := ''SLD''\<rparr>"

definition fill_third :: Fill where
  "fill_third =
     \<lparr>timestamp = zero_Time, symbol = '''', Exchange = '''', direction = ''SLD'',
      qty = 3, price = 0x3FD5555555555555, commission = 0, exchangeFee = 0,
      cost = 0x3FF0000000000000\<rparr>"

definition store_a :: store where
  \<comment> \<open>one map object, at address 0\<close>
  "store_a = [0 \<mapsto> [''sma'' \<mapsto> 0x4059000000000000]]"

definition bar_a :: Bar where
  "bar_a =
     \<lparr>timestamp = zero_Time, symbol = ''ABC'', Bar.DataEvent = \<lparr>Metrics = Some 0\<rparr>,
      Open = 0x4059000000000000, High = 0x4059600000000000, Low = 0x4059000000000000,
      Close = 0x4059600000000000, AdjClose = 0x4059600000000000, Volume = 1000\<rparr>"

definition bar_b :: Bar where
  \<comment> \<open>\<open>bar_a\<close> with a nil map and another adjusted close\<close>
  "bar_b = bar_a\<lparr>Bar.DataEvent := \<lparr>Metrics = None\<rparr>, AdjClose := 0x4049000000000000\<rparr>"

definition tick_a :: Tick where
  \<comment> \<open>a crossed quote: the bid is above the ask\<close>
  "tick_a =
     \<lparr>timestamp = zero_Time, symbol = ''ABC'', Tick.DataEvent = \<lparr>Metrics = Some 0\<rparr>,
      Bid = 0x4059200000000000, Ask = 0x4059000000000000\<rparr>"

definition signal_a :: Signal where
  "signal_a = \<lparr>timestamp = zero_Time, symbol = ''ABC'', Signal.direction = ''long''\<rparr>"

definition order_a :: Order where
  "order_a =
     \<lparr>timestamp = zero_Time, symbol = ''ABC'', Order.direction = ''buy'', Order.qty = 10,
      OrderType = ''limit'', Limit = 0x4049000000000000\<rparr>"

section \<open>Arithmetic on concrete numbers\<close>

text \<open>
  Equality of two float64 below is equality of their bits. Go's \<open>==\<close> agrees with it
  except that it is false on a NaN, also against itself, and true on the two zeros.
\<close>

lemma float64_eq_same: "float64_eq x x = (\<not> is_nan x)"
  by (simp add: float64_eq_def)

text \<open>The operations on some numbers whose results are known.\<close>

lemma fadd_tenth_fifth: "fadd 0x3FB999999999999A 0x3FC999999999999A = 0x3FD3333333333334"
  by code_simp

lemma fdiv_1_3: "fdiv 0x3FF0000000000000 0x4008000000000000 = 0x3FD5555555555555"
  by code_simp

lemma fsub_inf_inf: "is_nan (fsub 0x7FF0000000000000 0x7FF0000000000000)"
  by code_simp

lemma fadd_ties_to_even:
  "fadd 0x3FF0000000000000 0x3CA0000000000000 = 0x3FF0000000000000
   \<and> fadd 0x3FF0000000000000 0x3CB8000000000000 = 0x3FF0000000000002"
  by code_simp

lemma signed_zeros:
  "fadd 0x8000000000000000 0 = 0
   \<and> fadd 0x8000000000000000 0x8000000000000000 = 0x8000000000000000
   \<and> fsub 0x3FF0000000000000 0x3FF0000000000000 = 0
   \<and> fmul 0x8000000000000000 0x4014000000000000 = 0x8000000000000000
   \<and> float64_eq 0x8000000000000000 0"
  by code_simp

lemma division_by_zero:
  "fdiv 0x3FF0000000000000 0 = 0x7FF0000000000000
   \<and> fdiv 0x3FF0000000000000 0x8000000000000000 = 0xFFF0000000000000
   \<and> is_nan (fdiv 0 0)"
  by code_simp

lemma float64_of_int64_rounds:
  "float64_of_int64 (2 ^ 53 + 1) = 0x4340000000000000
   \<and> float64_of_int64 (2 ^ 53 + 3) = 0x4340000000000002
   \<and> float64_of_int64 (- 1) = 0xBFF0000000000000"
  by code_simp

lemma float64_2_bits: "float64_2 = 0x4000000000000000"
  by code_simp

lemma float64_of_int64_5: "float64_of_int64 5 = 0x4014000000000000"
  by code_simp

lemma float64_of_int64_10: "float64_of_int64 10 = 0x4024000000000000"
  by code_simp

lemma fmul_5_10: "fmul 0x4014000000000000 0x4024000000000000 = 0x4049000000000000"
  by code_simp

lemma fmul_10_50: "fmul 0x4024000000000000 0x4049000000000000 = 0x407F400000000000"
  by code_simp

lemma fsub_50_1: "fsub 0x4049000000000000 0x3FF0000000000000 = 0x4048800000000000"
  by code_simp

lemma fma_5_10_minus_1:
  "fma 0x4014000000000000 0x4024000000000000 (fneg 0x3FF0000000000000) = 0x4048800000000000"
  by code_simp

lemma mid_100_100_5:
  "fdiv (fadd 0x4059000000000000 0x4059200000000000) float64_2 = 0x4059100000000000"
  by code_simp

lemma mid_100_5_100:
  "fdiv (fadd 0x4059200000000000 0x4059000000000000) float64_2 = 0x4059100000000000"
  by code_simp

text \<open>
  Buying 10 at 50.0 with cost 2.5 has the net value 502.5, \<open>0x407F680000000000\<close>, and
  selling them 497.5, \<open>0x407F180000000000\<close>, on either target. But fusing can change a
  result: three times the float64 nearest to one third is
  \<open>1 - 2 ^ -54\<close>, which rounds to 1.0, so that selling 3 at that price with cost 1.0 has
  net value 0 when the product is rounded first, and \<open>- (2 ^ -54)\<close> when it is not.
\<close>

lemma Fill_NetValue_scenarios:
  "Fill_NetValue False fill_bot = 0x407F680000000000
   \<and> Fill_NetValue True fill_bot = 0x407F680000000000
   \<and> Fill_NetValue False fill_sld = 0x407F180000000000
   \<and> Fill_NetValue True fill_sld = 0x407F180000000000"
  by code_simp

lemma Fill_NetValue_depends_on_fusing:
  "Fill_NetValue False fill_third = 0 \<and> Fill_NetValue True fill_third = 0xBC90000000000000"
  by code_simp

section \<open>The prices of the market data\<close>

text \<open>
  C2. \<open>LatestPrice\<close> of a Bar is its \<open>Close\<close>, the same bits, whatever the store holds.
  \<open>Open\<close>, \<open>High\<close>, \<open>Low\<close>, \<open>AdjClose\<close> and \<open>Volume\<close> play no role: with all five
  replaced the result is still the \<open>Close\<close> of the Bar.
\<close>

theorem Bar_LatestPrice_is_Close:
  "fst (Bar_LatestPrice b h) = Close b
   \<and> fst (Bar_LatestPrice
        (b\<lparr>Open := x1, High := x2, Low := x3, AdjClose := x4, Volume := x5\<rparr>) h) = Close b"
  by (simp add: Bar_LatestPrice_def)

theorem Bar_LatestPrice_is_Close_witness:
  "fst (Bar_LatestPrice bar_a store_a) = 0x4059600000000000"
  using Bar_LatestPrice_is_Close [of bar_a store_a] by (simp add: bar_a_def)

text \<open>
  C3. \<open>LatestPrice\<close> of a Tick is \<open>(Bid + Ask) / 2\<close> in float64 arithmetic: the sum is
  rounded, then divided by 2.0, which is \<open>0x4000000000000000\<close>. Nothing is asked of the
  bid and the ask: the quote 100.0 / 100.5 and the crossed quote 100.5 / 100.0 both have
  the latest price 100.25, \<open>0x4059100000000000\<close>.
\<close>

theorem Tick_LatestPrice_is_mid:
  "fst (Tick_LatestPrice t h) = fdiv (fadd (Bid t) (Ask t)) float64_2
   \<and> float64_2 = 0x4000000000000000
   \<and> fst (Tick_LatestPrice (t\<lparr>Bid := 0x4059000000000000, Ask := 0x4059200000000000\<rparr>) h)
       = 0x4059100000000000
   \<and> fst (Tick_LatestPrice (t\<lparr>Bid := 0x4059200000000000, Ask := 0x4059000000000000\<rparr>) h)
       = 0x4059100000000000"
  by (simp add: Tick_LatestPrice_def mid_100_100_5 mid_100_5_100 float64_2_bits [symmetric])

theorem Tick_LatestPrice_is_mid_witness:
  "fst (Tick_LatestPrice tick_a store_a) = 0x4059100000000000"
  using Tick_LatestPrice_is_mid [of tick_a store_a]
  by (simp add: tick_a_def mid_100_5_100)

text \<open>
  C8. The two \<open>LatestPrice\<close> methods neither read nor write the metrics. Replacing the
  \<open>DataEvent\<close> of a Bar or of a Tick, or the \<open>AdjClose\<close> of a Bar, and running on any
  other store, gives the same price (conjuncts 1, 2 and 4); the store that a call returns
  is the store it was given, so that every map object is as it was (conjuncts 3 and 5).
  More generally two Bars with the same \<open>Close\<close>, and two Ticks with the same \<open>Bid\<close> and
  \<open>Ask\<close>, have the same price (conjuncts 6 and 7).
\<close>

theorem LatestPrice_ignores_Metrics:
  "fst (Bar_LatestPrice (b\<lparr>Bar.DataEvent := d\<rparr>) h') = fst (Bar_LatestPrice b h)
   \<and> fst (Bar_LatestPrice (b\<lparr>AdjClose := a\<rparr>) h') = fst (Bar_LatestPrice b h)
   \<and> snd (Bar_LatestPrice b h) = h
   \<and> fst (Tick_LatestPrice (t\<lparr>Tick.DataEvent := d\<rparr>) h') = fst (Tick_LatestPrice t h)
   \<and> snd (Tick_LatestPrice t h) = h
   \<and> (Close b = Close b' \<longrightarrow> fst (Bar_LatestPrice b h) = fst (Bar_LatestPrice b' h'))
   \<and> (Bid t = Bid t' \<and> Ask t = Ask t' \<longrightarrow>
        fst (Tick_LatestPrice t h) = fst (Tick_LatestPrice t' h'))"
  by (simp add: Bar_LatestPrice_def Tick_LatestPrice_def)

theorem LatestPrice_ignores_Metrics_witness:
  "Close bar_a = Close bar_b
   \<and> Metrics (Bar.DataEvent bar_a) \<noteq> Metrics (Bar.DataEvent bar_b)
   \<and> AdjClose bar_a \<noteq> AdjClose bar_b
   \<and> fst (Bar_LatestPrice bar_a store_a) = fst (Bar_LatestPrice bar_b Map.empty)
   \<and> snd (Bar_LatestPrice bar_a store_a) = store_a
   \<and> Bid tick_a = Bid (tick_a\<lparr>Tick.DataEvent := \<lparr>Metrics = None\<rparr>\<rparr>)
   \<and> Ask tick_a = Ask (tick_a\<lparr>Tick.DataEvent := \<lparr>Metrics = None\<rparr>\<rparr>)
   \<and> fst (Tick_LatestPrice tick_a store_a)
       = fst (Tick_LatestPrice (tick_a\<lparr>Tick.DataEvent := \<lparr>Metrics = None\<rparr>\<rparr>) Map.empty)
   \<and> snd (Tick_LatestPrice tick_a store_a) = store_a"
proof -
  have c: "Close bar_a = Close bar_b"
    by (simp add: bar_b_def)
  have m: "Metrics (Bar.DataEvent bar_a) \<noteq> Metrics (Bar.DataEvent bar_b)"
    by (simp add: bar_a_def bar_b_def)
  have a: "AdjClose bar_a \<noteq> AdjClose bar_b"
    by (simp add: bar_a_def bar_b_def)
  have b: "Bid tick_a = Bid (tick_a\<lparr>Tick.DataEvent := \<lparr>Metrics = None\<rparr>\<rparr>)"
    and k: "Ask tick_a = Ask (tick_a\<lparr>Tick.DataEvent := \<lparr>Metrics = None\<rparr>\<rparr>)"
    by simp_all
  note t = LatestPrice_ignores_Metrics [where b = bar_a and b' = bar_b and h = store_a
      and h' = Map.empty and t = tick_a
      and t' = "tick_a\<lparr>Tick.DataEvent := \<lparr>Metrics = None\<rparr>\<rparr>"]
  from t c have 1: "fst (Bar_LatestPrice bar_a store_a) = fst (Bar_LatestPrice bar_b Map.empty)"
    by blast
  from t have 2: "snd (Bar_LatestPrice bar_a store_a) = store_a"
    by blast
  from t b k have 3: "fst (Tick_LatestPrice tick_a store_a)
       = fst (Tick_LatestPrice (tick_a\<lparr>Tick.DataEvent := \<lparr>Metrics = None\<rparr>\<rparr>) Map.empty)"
    by blast
  from t have 4: "snd (Tick_LatestPrice tick_a store_a) = store_a"
    by blast
  from c m a b k 1 2 3 4 show ?thesis by blast
qed

section \<open>Fill: the value and the net value\<close>

text \<open>
  C4. \<open>Value\<close> of a Fill is its quantity, converted to float64, times its price.
  Direction, commission, exchange fee and cost play no role: replacing all four leaves
  the value as it is. Quantity 10 at the price 50.0 has the value 500.0,
  \<open>0x407F400000000000\<close>.
\<close>

theorem Fill_Value_formula:
  "Fill_Value f = fmul (float64_of_int64 (Fill_Qty f)) (Fill_Price f)
   \<and> Fill_Value (f\<lparr>Fill.direction := d, commission := c, exchangeFee := x, cost := k\<rparr>)
       = Fill_Value f
   \<and> Fill_Value (f\<lparr>Fill.qty := 10, price := 0x4049000000000000\<rparr>) = 0x407F400000000000"
  by (simp add: Fill_Value_def Fill_Qty_def Fill_Price_def float64_of_int64_10 fmul_10_50)

theorem Fill_Value_formula_witness:
  "Fill_Value fill_bot = 0x407F400000000000
   \<and> Fill_Value (fill_bot\<lparr>Fill.direction := ''SLD'', commission := 0x3FF0000000000000,
        exchangeFee := 0x3FF0000000000000, cost := 0\<rparr>) = 0x407F400000000000"
  using Fill_Value_formula [where f = fill_bot and d = "''SLD''" and c = "0x3FF0000000000000"
      and x = "0x3FF0000000000000" and k = 0]
  by (simp add: fill_bot_def Fill_Qty_def Fill_Price_def float64_of_int64_10 fmul_10_50)

text \<open>
  C1. \<open>NetValue\<close> of a Fill whose direction is \<open>"BOT"\<close> is quantity times price plus
  cost; for every other direction it is quantity times price minus cost. The quantity is
  converted to float64 first; on a target that does not fuse, the product is rounded and
  then the sum or difference is (first conjunct); on a target that fuses, the exact value
  is rounded once (second conjunct). A direction other than \<open>"BOT"\<close> and \<open>"SLD"\<close> is not
  an error: the result is the one of the same Fill with direction \<open>"SLD"\<close> (third
  conjunct). A Fill with direction \<open>"unknown"\<close>, quantity 5, price 10.0 and cost 1.0 has
  the net value 49.0, \<open>0x4048800000000000\<close>, on either target (fourth conjunct).
\<close>

theorem Fill_NetValue_formula:
  "Fill_NetValue False f =
     (if Fill_Direction f = ''BOT''
      then fadd (fmul (float64_of_int64 (Fill_Qty f)) (Fill_Price f)) (Fill_Cost f)
      else fsub (fmul (float64_of_int64 (Fill_Qty f)) (Fill_Price f)) (Fill_Cost f))
   \<and> Fill_NetValue True f =
     (if Fill_Direction f = ''BOT''
      then fma (float64_of_int64 (Fill_Qty f)) (Fill_Price f) (Fill_Cost f)
      else fma (float64_of_int64 (Fill_Qty f)) (Fill_Price f) (fneg (Fill_Cost f)))
   \<and> (Fill_Direction f \<noteq> ''BOT'' \<longrightarrow>
        Fill_NetValue fused f = Fill_NetValue fused (f\<lparr>Fill.direction := ''SLD''\<rparr>))
   \<and> Fill_NetValue fused
        (f\<lparr>Fill.direction := ''unknown'', Fill.qty := 5, price := 0x4024000000000000,
           cost := 0x3FF0000000000000\<rparr>) = 0x4048800000000000"
proof -
  have unfused: "Fill_NetValue False f =
     (if Fill_Direction f = ''BOT''
      then fadd (fmul (float64_of_int64 (Fill_Qty f)) (Fill_Price f)) (Fill_Cost f)
      else fsub (fmul (float64_of_int64 (Fill_Qty f)) (Fill_Price f)) (Fill_Cost f))"
    by (simp add: Fill_NetValue_def mul_add_def mul_sub_def Fill_Direction_def Fill_Qty_def
        Fill_Price_def Fill_Cost_def)
  have fused: "Fill_NetValue True f =
     (if Fill_Direction f = ''BOT''
      then fma (float64_of_int64 (Fill_Qty f)) (Fill_Price f) (Fill_Cost f)
      else fma (float64_of_int64 (Fill_Qty f)) (Fill_Price f) (fneg (Fill_Cost f)))"
    by (simp add: Fill_NetValue_def mul_add_def mul_sub_def Fill_Direction_def Fill_Qty_def
        Fill_Price_def Fill_Cost_def)
  have fallback: "Fill_Direction f \<noteq> ''BOT'' \<longrightarrow>
        Fill_NetValue fused f = Fill_NetValue fused (f\<lparr>Fill.direction := ''SLD''\<rparr>)"
    by (simp add: Fill_NetValue_def Fill_Direction_def)
  have scenario: "Fill_NetValue fused
        (f\<lparr>Fill.direction := ''unknown'', Fill.qty := 5, price := 0x4024000000000000,
           cost := 0x3FF0000000000000\<rparr>) = 0x4048800000000000"
    by (cases fused)
      (simp_all add: Fill_NetValue_def mul_sub_def float64_of_int64_5 fmul_5_10 fsub_50_1
        fma_5_10_minus_1)
  from unfused fused fallback scenario show ?thesis by blast
qed

theorem Fill_NetValue_formula_witness:
  "Fill_Direction fill_unknown \<noteq> ''BOT''
   \<and> Fill_NetValue False fill_unknown
       = Fill_NetValue False (fill_unknown\<lparr>Fill.direction := ''SLD''\<rparr>)
   \<and> Fill_NetValue False fill_unknown = 0x4048800000000000"
proof -
  have d: "Fill_Direction fill_unknown \<noteq> ''BOT''"
    by (simp add: Fill_Direction_def fill_unknown_def)
  have u: "fill_unknown\<lparr>Fill.direction := ''unknown'', Fill.qty := 5,
      price := 0x4024000000000000, cost := 0x3FF0000000000000\<rparr> = fill_unknown"
    by (simp add: fill_unknown_def)
  have a: "Fill_NetValue False fill_unknown
      = Fill_NetValue False (fill_unknown\<lparr>Fill.direction := ''SLD''\<rparr>)"
    using d Fill_NetValue_formula [of fill_unknown False] by blast
  have "Fill_NetValue False (fill_unknown\<lparr>Fill.direction := ''unknown'', Fill.qty := 5,
      price := 0x4024000000000000, cost := 0x3FF0000000000000\<rparr>) = 0x4048800000000000"
    using Fill_NetValue_formula [of fill_unknown False] by blast
  then have b: "Fill_NetValue False fill_unknown = 0x4048800000000000"
    by (simp only: u)
  from d a b show ?thesis by blast
qed

text \<open>
  C7. \<open>NetValue\<close> reads the direction, the quantity, the price and the cost of a Fill
  and nothing else: two Fills that agree on these four have the same net value, whatever
  their commission and exchange fee (and their other fields) are, and replacing the
  commission and the exchange fee of a Fill leaves its net value as it is. The cost is
  taken as stored; it is not computed from the commission and the exchange fee.
\<close>

theorem Fill_NetValue_reads_four_fields:
  assumes "Fill_Direction f = Fill_Direction g" and "Fill_Qty f = Fill_Qty g"
    and "Fill_Price f = Fill_Price g" and "Fill_Cost f = Fill_Cost g"
  shows "Fill_NetValue fused f = Fill_NetValue fused g
    \<and> Fill_NetValue fused (f\<lparr>commission := c, exchangeFee := x\<rparr>) = Fill_NetValue fused f"
  using assms
  by (simp add: Fill_NetValue_def Fill_Direction_def Fill_Qty_def Fill_Price_def Fill_Cost_def)

theorem Fill_NetValue_reads_four_fields_witness:
  "Fill_Direction fill_bot = Fill_Direction fill_bot_fees
   \<and> Fill_Qty fill_bot = Fill_Qty fill_bot_fees
   \<and> Fill_Price fill_bot = Fill_Price fill_bot_fees
   \<and> Fill_Cost fill_bot = Fill_Cost fill_bot_fees
   \<and> Fill_Commission fill_bot \<noteq> Fill_Commission fill_bot_fees
   \<and> Fill_ExchangeFee fill_bot \<noteq> Fill_ExchangeFee fill_bot_fees
   \<and> Fill_NetValue False fill_bot = Fill_NetValue False fill_bot_fees"
proof -
  have d: "Fill_Direction fill_bot = Fill_Direction fill_bot_fees"
    by (simp add: Fill_Direction_def fill_bot_fees_def)
  have q: "Fill_Qty fill_bot = Fill_Qty fill_bot_fees"
    by (simp add: Fill_Qty_def fill_bot_fees_def)
  have p: "Fill_Price fill_bot = Fill_Price fill_bot_fees"
    by (simp add: Fill_Price_def fill_bot_fees_def)
  have c: "Fill_Cost fill_bot = Fill_Cost fill_bot_fees"
    by (simp add: Fill_Cost_def fill_bot_fees_def)
  have m: "Fill_Commission fill_bot \<noteq> Fill_Commission fill_bot_fees"
    by (simp add: Fill_Commission_def fill_bot_fees_def fill_bot_def)
  have x: "Fill_ExchangeFee fill_bot \<noteq> Fill_ExchangeFee fill_bot_fees"
    by (simp add: Fill_ExchangeFee_def fill_bot_fees_def fill_bot_def)
  from Fill_NetValue_reads_four_fields [OF d q p c, of False]
  have "Fill_NetValue False fill_bot = Fill_NetValue False fill_bot_fees"
    by blast
  with d q p c m x show ?thesis by blast
qed

section \<open>The setters\<close>

text \<open>
  In this section \<open>e\<close> is any extension of \<open>Event\<close>, so that what is said of \<open>SetTime\<close>
  and \<open>SetSymbol\<close> holds of Bar, Tick, Signal, Order and Fill; \<open>g\<close> is a Signal, \<open>r\<close> an
  Order and \<open>f\<close> a Fill. A setter is called on an event: its receiver points to one.
\<close>

text \<open>
  C5. A setter followed by the getter of the same attribute gives back the value that
  was set, whatever the value is: \<open>SetTime\<close> and \<open>Time\<close>, \<open>SetSymbol\<close> and \<open>Symbol\<close> on
  every event; \<open>SetDirection\<close> and \<open>Direction\<close> on Signal, Order and Fill; \<open>SetQty\<close> and
  \<open>Qty\<close> on Order and Fill.
\<close>

theorem setter_getter_round_trip:
  fixes e :: "'a Event_scheme"
  shows "(\<exists>e'. Event_SetTime t (Some e) = Inr e' \<and> Event_Time e' = t)
   \<and> (\<exists>e'. Event_SetSymbol s (Some e) = Inr e' \<and> Event_Symbol e' = s)
   \<and> (\<exists>g'. Signal_SetDirection d (Some g) = Inr g' \<and> Signal_Direction g' = d)
   \<and> (\<exists>r'. Order_SetDirection d (Some r) = Inr r' \<and> Order_Direction r' = d)
   \<and> (\<exists>r'. Order_SetQty i (Some r) = Inr r' \<and> Order_Qty r' = i)
   \<and> (\<exists>f'. Fill_SetDirection d (Some f) = Inr f' \<and> Fill_Direction f' = d)
   \<and> (\<exists>f'. Fill_SetQty i (Some f) = Inr f' \<and> Fill_Qty f' = i)"
  by (simp add: Event_Time_def Event_Symbol_def Signal_Direction_def Order_Direction_def
      Order_Qty_def Fill_Direction_def Fill_Qty_def)

theorem setter_getter_round_trip_witness:
  "(\<exists>b'. Event_SetTime noon (Some bar_a) = Inr b' \<and> Event_Time b' = noon)
   \<and> (\<exists>t'. Event_SetSymbol ''XYZ'' (Some tick_a) = Inr t' \<and> Event_Symbol t' = ''XYZ'')
   \<and> (\<exists>g'. Signal_SetDirection ''short'' (Some signal_a) = Inr g'
        \<and> Signal_Direction g' = ''short'')
   \<and> (\<exists>r'. Order_SetQty 25 (Some order_a) = Inr r' \<and> Order_Qty r' = 25)
   \<and> (\<exists>f'. Fill_SetDirection ''SLD'' (Some fill_bot) = Inr f' \<and> Fill_Direction f' = ''SLD'')"
  using setter_getter_round_trip [where e = bar_a and t = noon]
    setter_getter_round_trip [where e = tick_a and s = "''XYZ''" and d = "''short''"
      and g = signal_a and i = 25 and r = order_a]
    setter_getter_round_trip [where e = bar_a and d = "''SLD''" and f = fill_bot]
  by blast

text \<open>
  C6. No setter refuses a value. Called on an event with any argument (any time, any
  string, any int64) a setter does not panic, and the getter then returns the argument as
  it was given. The witness sets the directions \<open>"sideways"\<close> and \<open>""\<close>, which are in
  the vocabulary of no kind, and the quantity -1.
\<close>

theorem setters_never_fail:
  fixes e :: "'a Event_scheme"
  shows "\<not> isl (Event_SetTime t (Some e)) \<and> Event_Time (projr (Event_SetTime t (Some e))) = t
   \<and> \<not> isl (Event_SetSymbol s (Some e))
   \<and> Event_Symbol (projr (Event_SetSymbol s (Some e))) = s
   \<and> \<not> isl (Signal_SetDirection d (Some g))
   \<and> Signal_Direction (projr (Signal_SetDirection d (Some g))) = d
   \<and> \<not> isl (Order_SetDirection d (Some r))
   \<and> Order_Direction (projr (Order_SetDirection d (Some r))) = d
   \<and> \<not> isl (Order_SetQty i (Some r)) \<and> Order_Qty (projr (Order_SetQty i (Some r))) = i
   \<and> \<not> isl (Fill_SetDirection d (Some f))
   \<and> Fill_Direction (projr (Fill_SetDirection d (Some f))) = d
   \<and> \<not> isl (Fill_SetQty i (Some f)) \<and> Fill_Qty (projr (Fill_SetQty i (Some f))) = i"
  by (simp add: Event_Time_def Event_Symbol_def Signal_Direction_def Order_Direction_def
      Order_Qty_def Fill_Direction_def Fill_Qty_def)

theorem setters_never_fail_witness:
  "\<not> isl (Fill_SetDirection ''sideways'' (Some fill_bot))
   \<and> Fill_Direction (projr (Fill_SetDirection ''sideways'' (Some fill_bot))) = ''sideways''
   \<and> \<not> isl (Signal_SetDirection '''' (Some signal_a))
   \<and> Signal_Direction (projr (Signal_SetDirection '''' (Some signal_a))) = ''''
   \<and> \<not> isl (Order_SetQty (- 1) (Some order_a))
   \<and> sint (Order_Qty (projr (Order_SetQty (- 1) (Some order_a)))) = - 1"
  using setters_never_fail [where e = bar_a and d = "''sideways''" and f = fill_bot]
    setters_never_fail [where e = bar_a and d = "''''" and g = signal_a and i = "- 1"
      and r = order_a]
  by simp

text \<open>
  C9. A setter changes its own field only. \<open>SetTime\<close> leaves the symbol and all the
  fields of the kind (\<open>Event.more\<close>: for a Fill the exchange, the direction, the quantity,
  the price, the commission, the exchange fee and the cost) as they were, \<open>SetSymbol\<close>
  the timestamp and all the fields of the kind. \<open>SetDirection\<close> leaves every field but
  the direction as it was, \<open>SetQty\<close> every field but the quantity: among them the
  \<open>OrderType\<close> and the \<open>Limit\<close> of an Order, and the price, the commission, the exchange
  fee and the cost of a Fill.
\<close>

theorem setters_change_one_field:
  fixes e :: "'a Event_scheme"
  shows "(\<exists>e'. Event_SetTime t (Some e) = Inr e'
        \<and> symbol e' = symbol e \<and> Event.more e' = Event.more e)
   \<and> (\<exists>e'. Event_SetSymbol s (Some e) = Inr e'
        \<and> timestamp e' = timestamp e \<and> Event.more e' = Event.more e)
   \<and> (\<exists>g'. Signal_SetDirection d (Some g) = Inr g'
        \<and> timestamp g' = timestamp g \<and> symbol g' = symbol g)
   \<and> (\<exists>r'. Order_SetDirection d (Some r) = Inr r'
        \<and> timestamp r' = timestamp r \<and> symbol r' = symbol r \<and> Order.qty r' = Order.qty r
        \<and> OrderType r' = OrderType r \<and> Limit r' = Limit r)
   \<and> (\<exists>r'. Order_SetQty i (Some r) = Inr r'
        \<and> timestamp r' = timestamp r \<and> symbol r' = symbol r
        \<and> Order.direction r' = Order.direction r
        \<and> OrderType r' = OrderType r \<and> Limit r' = Limit r)
   \<and> (\<exists>f'. Fill_SetDirection d (Some f) = Inr f'
        \<and> timestamp f' = timestamp f \<and> symbol f' = symbol f \<and> Exchange f' = Exchange f
        \<and> Fill.qty f' = Fill.qty f \<and> price f' = price f \<and> commission f' = commission f
        \<and> exchangeFee f' = exchangeFee f \<and> cost f' = cost f)
   \<and> (\<exists>f'. Fill_SetQty i (Some f) = Inr f'
        \<and> timestamp f' = timestamp f \<and> symbol f' = symbol f \<and> Exchange f' = Exchange f
        \<and> Fill.direction f' = Fill.direction f \<and> price f' = price f
        \<and> commission f' = commission f \<and> exchangeFee f' = exchangeFee f
        \<and> cost f' = cost f)"
  by simp

theorem setters_change_one_field_witness:
  "(\<exists>f'. Event_SetTime noon (Some fill_bot) = Inr f'
        \<and> symbol f' = symbol fill_bot \<and> Event.more f' = Event.more fill_bot)
   \<and> (\<exists>r'. Order_SetQty 25 (Some order_a) = Inr r'
        \<and> timestamp r' = timestamp order_a \<and> symbol r' = symbol order_a
        \<and> Order.direction r' = Order.direction order_a
        \<and> OrderType r' = OrderType order_a \<and> Limit r' = Limit order_a)"
  using setters_change_one_field [where e = fill_bot and t = noon and i = 25 and r = order_a]
  by blast

text \<open>
  C10. Setters of different attributes commute. Through any receiver \<open>p\<close>, \<open>SetTime\<close>
  then \<open>SetSymbol\<close> leaves what \<open>SetSymbol\<close> then \<open>SetTime\<close> leaves, on every event; so
  do \<open>SetDirection\<close> and \<open>SetQty\<close> on an Order and on a Fill.
\<close>

theorem setters_commute:
  fixes p :: "'a Event_scheme option"
  shows "and_then (Event_SetTime t p) (Event_SetSymbol s)
       = and_then (Event_SetSymbol s p) (Event_SetTime t)
   \<and> and_then (Order_SetDirection d po) (Order_SetQty i)
       = and_then (Order_SetQty i po) (Order_SetDirection d)
   \<and> and_then (Fill_SetDirection d pf) (Fill_SetQty i)
       = and_then (Fill_SetQty i pf) (Fill_SetDirection d)"
  by (cases p; cases po; cases pf) (simp_all add: and_then_def)

theorem setters_commute_witness:
  "and_then (Event_SetTime noon (Some bar_a)) (Event_SetSymbol ''XYZ'')
     = and_then (Event_SetSymbol ''XYZ'' (Some bar_a)) (Event_SetTime noon)
   \<and> and_then (Order_SetDirection ''sell'' (Some order_a)) (Order_SetQty 25)
     = and_then (Order_SetQty 25 (Some order_a)) (Order_SetDirection ''sell'')
   \<and> and_then (Fill_SetDirection ''SLD'' (Some fill_bot)) (Fill_SetQty 25)
     = Inr (fill_bot\<lparr>Fill.direction := ''SLD'', Fill.qty := 25\<rparr>)"
proof -
  have "and_then (Fill_SetDirection ''SLD'' (Some fill_bot)) (Fill_SetQty 25)
     = Inr (fill_bot\<lparr>Fill.direction := ''SLD'', Fill.qty := 25\<rparr>)"
    by (simp add: and_then_def)
  with setters_commute [where p = "Some bar_a" and t = noon and s = "''XYZ''"
      and d = "''sell''" and po = "Some order_a" and i = 25]
  show ?thesis by blast
qed

end
